theory Spec2Isabelle
  imports Main
begin

section \<open>JavaScript values the handlers compute with\<close>


definition digit_chars :: string where
  "digit_chars = ''0123456789''"

definition hex_chars :: string where
  "hex_chars = ''0123456789abcdef''"

definition is_digit :: "char \<Rightarrow> bool" where
  \<comment> \<open>The regular-expression class \<open>\d\<close> (no unicode flag).\<close>
  "is_digit c = (c \<in> set digit_chars)"

definition is_hex :: "char \<Rightarrow> bool" where
  \<comment> \<open>The regular-expression class \<open>[\da-f]\<close>.\<close>
  "is_hex c = (c \<in> set hex_chars)"

definition digit_char :: "nat \<Rightarrow> char" where
  "digit_char d = digit_chars ! d"

definition digit_val :: "char \<Rightarrow> nat" where
  "digit_val c = of_char c - 48"

function dec :: "nat \<Rightarrow> string" where
  "dec n = (if n < 10 then [digit_char n] else dec (n div 10) @ [digit_char (n mod 10)])"
  by pat_completeness auto
termination
  by (relation "measure id") auto

declare dec.simps [simp del]

definition strip_trailing_zeros :: "string \<Rightarrow> string" where
  "strip_trailing_zeros ds = rev (dropWhile (\<lambda>c. c = CHR ''0'') (rev ds))"

definition js_nat_to_string :: "nat \<Rightarrow> string" where
  \<comment> \<open>Number::toString of ECMAScript on a non-negative integer: plain decimal digits
      below \<open>10^21\<close>, exponent notation from there on (\<open>1e+21\<close>, \<open>1.5e+21\<close>). The digits are
      those of the integer itself: what JavaScript prints for a safe integer, and for the
      doubles beyond as long as their shortest digits are all their digits, as for
      \<open>10^21\<close>.\<close>
  "js_nat_to_string n =
     (if n < 10 ^ 21 then dec n
      else (case strip_trailing_zeros (dec n) of
              [] \<Rightarrow> []
            | d # ds \<Rightarrow> (if ds = [] then [d] else d # CHR ''.'' # ds))
           @ ''e+'' @ dec (length (dec n) - 1))"

definition js_number_to_string :: "int \<Rightarrow> string" where
  \<comment> \<open>String concatenation and template literals convert a number this way.\<close>
  "js_number_to_string i =
     (if i < 0 then CHR ''-'' # js_nat_to_string (nat (- i)) else js_nat_to_string (nat i))"

definition js_Number :: "string \<Rightarrow> int" where
  \<comment> \<open>\<open>Number(s)\<close> on a string of decimal digits, the only strings the capture group
      \<open>(\d+)\<close> produces: the integer the digits denote, which is what JavaScript gives
      when that integer is safe; leading zeros do not count.\<close>
  "js_Number ds = int (foldl (\<lambda>a c. 10 * a + digit_val c) 0 ds)"

definition js_String :: "string option \<Rightarrow> string" where
  \<comment> \<open>\<open>RegExp.prototype.exec\<close> converts its argument to a string; \<open>None\<close> is
      \<open>undefined\<close>.\<close>
  "js_String v = (case v of None \<Rightarrow> ''undefined'' | Some s \<Rightarrow> s)"

definition to_lower :: "char \<Rightarrow> char" where
  "to_lower c =
     (case map_of (zip ''ABCDEFGHIJKLMNOPQRSTUVWXYZ'' ''abcdefghijklmnopqrstuvwxyz'') c of
        None \<Rightarrow> c
      | Some l \<Rightarrow> l)"

definition toLocaleLowerCase :: "string \<Rightarrow> string" where
  \<comment> \<open>On an ASCII string, in a locale without casing rules of its own (Turkish, Azeri
      and Lithuanian have some).\<close>
  "toLocaleLowerCase s = map to_lower s"

section \<open>Webhook signatures: secureHandler.ts\<close>

datatype error = ForbiddenError string

definition ERROR_MESSAGE :: string where
  "ERROR_MESSAGE = ''You don'' @ [CHR 0x27] @ ''t have access to invoke this function.''"

definition FIVE_MINUTES :: int where
  "FIVE_MINUTES = 5 * 60 * 1000"

definition DEFAULT_TOLERANCE :: int where
  "DEFAULT_TOLERANCE = FIVE_MINUTES"

definition WEBHOOK_SIGNTAURE_HEADER :: string where
  "WEBHOOK_SIGNTAURE_HEADER = ''RW-WEBHOOK-SIGNATURE''"

text \<open>
  What the module takes from its surroundings: the environment variable read once into
  \<open>WEBHOOK_SECRET\<close> (\<open>process.env['WEBHOOK_SECRET'] || ''\<close>), the clock \<open>Date.now()\<close>, and
  the HMAC-SHA-256 of the \<open>crypto\<close> library, as the function from key and message to the
  hexadecimal digest.
\<close>

record runtime =
  WEBHOOK_SECRET :: string
  Date_now :: int
  createHmac :: "string \<Rightarrow> string \<Rightarrow> string"

record VerifyOptions =
  tolerance :: "int option"
  timestamp :: "int option"

text \<open>
  The fields of the request event the handlers read. A header that is absent, like a
  header of an event without headers, reads as \<open>undefined\<close> (\<open>None\<close>).
\<close>

record APIGatewayProxyEvent =
  path :: string
  queryStringParameters :: "string \<rightharpoonup> string"
  body :: "string option"
  headers :: "string \<rightharpoonup> string"

definition getHmac :: "runtime \<Rightarrow> string option \<Rightarrow> error + (string \<Rightarrow> string)" where
  "getHmac rt secret =
     (case secret of
        None \<Rightarrow> Inl (ForbiddenError ERROR_MESSAGE)
      | Some s \<Rightarrow> if s = [] then Inl (ForbiddenError ERROR_MESSAGE) else Inr (createHmac rt s))"

definition signatureFromEvent :: "APIGatewayProxyEvent \<Rightarrow> string option" where
  "signatureFromEvent event = headers event (toLocaleLowerCase WEBHOOK_SIGNTAURE_HEADER)"

definition sign :: "runtime \<Rightarrow> string \<Rightarrow> string option \<Rightarrow> int option \<Rightarrow> error + string" where
  "sign rt body' secret stamp =
     (let secret' = (case secret of None \<Rightarrow> WEBHOOK_SECRET rt | Some s \<Rightarrow> s);
          stamp' = (case stamp of None \<Rightarrow> Date_now rt | Some t \<Rightarrow> t)
      in case getHmac rt (Some secret') of
           Inl e \<Rightarrow> Inl e
         | Inr hmac \<Rightarrow>
             Inr (''t='' @ js_number_to_string stamp' @ '',v1=''
                  @ hmac (js_number_to_string stamp' @ ''.'' @ body')))"

fun strip_prefix :: "string \<Rightarrow> string \<Rightarrow> string option" where
  "strip_prefix [] s = Some s"
| "strip_prefix (p # ps) [] = None"
| "strip_prefix (p # ps) (c # cs) = (if p = c then strip_prefix ps cs else None)"

definition match_at :: "string \<Rightarrow> (string \<times> string) option" where
  \<comment> \<open>\<open>t=(\d+),v1=([\da-f]+)\<close> matched at the start of the string: both groups are greedy,
      and a shorter run of digits is never followed by a comma.\<close>
  "match_at s =
     (case strip_prefix ''t='' s of
        None \<Rightarrow> None
      | Some r1 \<Rightarrow>
          if takeWhile is_digit r1 = [] then None
          else (case strip_prefix '',v1='' (dropWhile is_digit r1) of
                  None \<Rightarrow> None
                | Some r2 \<Rightarrow>
                    if takeWhile is_hex r2 = [] then None
                    else Some (takeWhile is_digit r1, takeWhile is_hex r2)))"

fun regex_exec :: "string \<Rightarrow> (string \<times> string) option" where
  \<comment> \<open>\<open>/t=(\d+),v1=([\da-f]+)/.exec(s)\<close>: the leftmost match, anywhere in the string.\<close>
  "regex_exec [] = None"
| "regex_exec (c # cs) =
     (case match_at (c # cs) of Some m \<Rightarrow> Some m | None \<Rightarrow> regex_exec cs)"

definition verifySignature ::
  "runtime \<Rightarrow> string \<Rightarrow> string option \<Rightarrow> string option \<Rightarrow> VerifyOptions option \<Rightarrow> error + bool" where
  "verifySignature rt body' secret signature options =
     (let secret' = (case secret of None \<Rightarrow> WEBHOOK_SECRET rt | Some s \<Rightarrow> s);
          options' = (case options of
                        None \<Rightarrow> \<lparr>tolerance = None, timestamp = None\<rparr>
                      | Some opts \<Rightarrow> opts)
      in case regex_exec (js_String signature) of
           None \<Rightarrow> Inl (ForbiddenError ERROR_MESSAGE)
         | Some (m1, m2) \<Rightarrow>
             let signedStamp = js_Number m1;
                 payload = m2;
                 stamp = (case timestamp options' of None \<Rightarrow> Date_now rt | Some t \<Rightarrow> t);
                 tol = (case tolerance options' of None \<Rightarrow> DEFAULT_TOLERANCE | Some t \<Rightarrow> t);
                 difference = \<bar>stamp - signedStamp\<bar>
             in if difference > tol then Inl (ForbiddenError ERROR_MESSAGE)
                else (case getHmac rt (Some secret') of
                        Inl e \<Rightarrow> Inl e
                      | Inr hmac \<Rightarrow>
                          if hmac (js_number_to_string signedStamp @ ''.'' @ body') = payload
                          then Inr True
                          else Inl (ForbiddenError ERROR_MESSAGE)))"

definition verify :: "runtime \<Rightarrow> APIGatewayProxyEvent \<Rightarrow> VerifyOptions option \<Rightarrow> error + bool" where
  "verify rt event options =
     (let body' = (case body event of None \<Rightarrow> [] | Some b \<Rightarrow> b);
          signature = signatureFromEvent event
      in verifySignature rt body' (Some (WEBHOOK_SECRET rt)) signature options)"

text \<open>
  The two readings of "the header has the form \<open>t=<digits>,v1=<hex>\<close>" that the
  specification and the regular expression give: the whole string has that form, or some
  part of it has.
\<close>

definition exact_signature :: "string \<Rightarrow> bool" where
  "exact_signature s =
     (case strip_prefix ''t='' s of
        None \<Rightarrow> False
      | Some r1 \<Rightarrow>
          takeWhile is_digit r1 \<noteq> []
          \<and> (case strip_prefix '',v1='' (dropWhile is_digit r1) of
                None \<Rightarrow> False
              | Some r2 \<Rightarrow> r2 \<noteq> [] \<and> list_all is_hex r2))"

definition contains_signature :: "string \<Rightarrow> bool" where
  "contains_signature s =
     (\<exists>pre ds hs post. s = pre @ ''t='' @ ds @ '',v1='' @ hs @ post
        \<and> ds \<noteq> [] \<and> (\<forall>c \<in> set ds. is_digit c) \<and> hs \<noteq> [] \<and> (\<forall>c \<in> set hs. is_hex c))"

definition hex_digests :: "runtime \<Rightarrow> bool" where
  \<comment> \<open>\<open>hmac.digest('hex')\<close> is a non-empty string of lower-case hexadecimal digits
      (64 of them for SHA-256).\<close>
  "hex_digests rt =
     (\<forall>k m. createHmac rt k m \<noteq> [] \<and> (\<forall>c \<in> set (createHmac rt k m). is_hex c))"

text \<open>
  What \<open>verifySignature\<close> works with once the defaults of its parameters are resolved: the
  secret (\<open>secret = WEBHOOK_SECRET\<close>), the check time (\<open>options?.timestamp ?? Date.now()\<close>)
  and the tolerance (\<open>options?.tolerance ?? DEFAULT_TOLERANCE\<close>).
\<close>

definition the_secret :: "runtime \<Rightarrow> string option \<Rightarrow> string" where
  "the_secret rt secret = (case secret of None \<Rightarrow> WEBHOOK_SECRET rt | Some s \<Rightarrow> s)"

definition check_time :: "runtime \<Rightarrow> VerifyOptions option \<Rightarrow> int" where
  "check_time rt options =
     (case options of
        None \<Rightarrow> Date_now rt
      | Some opts \<Rightarrow> (case timestamp opts of None \<Rightarrow> Date_now rt | Some t \<Rightarrow> t))"

definition the_tolerance :: "VerifyOptions option \<Rightarrow> int" where
  "the_tolerance options =
     (case options of
        None \<Rightarrow> DEFAULT_TOLERANCE
      | Some opts \<Rightarrow> (case tolerance opts of None \<Rightarrow> DEFAULT_TOLERANCE | Some t \<Rightarrow> t))"

text \<open>
  A keyed checksum with hexadecimal output, the digest of the concrete runtime below for
  the keys and messages it has no HMAC-SHA-256 value for. The theorems on
  \<open>verifySignature\<close> hold for every digest function with hexadecimal output.
\<close>

definition checksum :: "string \<Rightarrow> string \<Rightarrow> nat" where
  "checksum k m = foldl (\<lambda>a c. (a * 31 + of_char c) mod 65521) 7 (k @ CHR ''|'' # m)"

definition checksum_hmac :: "string \<Rightarrow> string \<Rightarrow> string" where
  "checksum_hmac k m =
     map (\<lambda>i. hex_chars ! ((checksum k m div 16 ^ i) mod 16)) [3, 2, 1, 0]"

section \<open>Cookie sessions: DbAuthHandler\<close>

text \<open>
  \<open>DbAuthHandler.js\<close> itself is not among the sources at hand; its test suite
  \<open>DbAuthHandler.test.js\<close> is. The definitions of this section follow the specification.
  Where the specification leaves a choice open, the choice is a parameter: it has the
  decrypted plaintext split "on its last-or-first \<open>;\<close>", and \<open>splitAt\<close> says which of the
  two it is.
\<close>

datatype jvalue = JString string | JNumber int

type_synonym json_object = "(string \<times> jvalue) list"

datatype sessionError = SessionDecryptionError

datatype split_reading = AtFirst | AtLast

text \<open>
  What the handler takes from its surroundings: the secret of \<open>process.env.SESSION_SECRET\<close>;
  the AES decryption of \<open>crypto-js\<close> read as UTF-8, from ciphertext and passphrase to the
  plaintext, which is \<open>None\<close> when reading the bytes as UTF-8 raises and the empty string
  for a text that is no ciphertext, such as \<open>qwerty\<close>; and \<open>JSON.parse\<close> on session
  payloads, \<open>None\<close> when it raises.
\<close>

record dbAuth_runtime =
  SESSION_SECRET :: string
  AES_decrypt :: "string \<Rightarrow> string \<Rightarrow> string option"
  JSON_parse :: "string \<Rightarrow> json_object option"
  splitAt :: split_reading

fun join :: "string \<Rightarrow> string list \<Rightarrow> string" where
  "join sep [] = []"
| "join sep [x] = x"
| "join sep (x # y # ys) = x @ sep @ join sep (y # ys)"

fun split_on :: "char \<Rightarrow> string \<Rightarrow> string list" where
  "split_on c [] = [[]]"
| "split_on c (x # xs) =
     (if x = c then [] # split_on c xs
      else (case split_on c xs of [] \<Rightarrow> [[x]] | y # ys \<Rightarrow> (x # y) # ys))"

definition after_delimiter :: "string \<Rightarrow> string" where
  \<comment> \<open>Modelled from the spec: part of the missing \<open>_getSession\<close>. Cookie pairs are
      delimited by \<open>;\<close> or by \<open>;\<close> and a space: a pair that starts with a space is taken
      without it.\<close>
  "after_delimiter pair = (case pair of [] \<Rightarrow> [] | c # cs \<Rightarrow> if c = CHR '' '' then cs else pair)"

definition cookie_name :: "string \<Rightarrow> string" where
  \<comment> \<open>Modelled from the spec: part of the missing \<open>_getSession\<close>. The name of a cookie
      pair, before its first \<open>=\<close>.\<close>
  "cookie_name pair = takeWhile (\<lambda>c. c \<noteq> CHR ''='') (after_delimiter pair)"

definition cookie_value :: "string \<Rightarrow> string" where
  \<comment> \<open>Modelled from the spec: part of the missing \<open>_getSession\<close>. The value of a cookie
      pair, after its first \<open>=\<close>.\<close>
  "cookie_value pair = drop 1 (dropWhile (\<lambda>c. c \<noteq> CHR ''='') (after_delimiter pair))"

definition getSession :: "APIGatewayProxyEvent \<Rightarrow> string option" where
  \<comment> \<open>Modelled from the spec: \<open>_getSession\<close> is missing. The value of the first cookie
      pair of the \<open>cookie\<close> header whose name is \<open>session\<close>, the name compared whole;
      \<open>None\<close> without a cookie header or such a pair.\<close>
  "getSession event =
     (case headers event ''cookie'' of
        None \<Rightarrow> None
      | Some h \<Rightarrow>
          (case filter (\<lambda>pair. cookie_name pair = ''session'') (split_on CHR '';'' h) of
             [] \<Rightarrow> None
           | pair # _ \<Rightarrow> Some (cookie_value pair)))"

definition session_parts :: "split_reading \<Rightarrow> string \<Rightarrow> (string \<times> string) option" where
  \<comment> \<open>Modelled from the spec: part of the missing \<open>_decryptSession\<close>. The plaintext is
      split at its first or at its last \<open>;\<close> into the JSON of the payload and the CSRF
      token; without a \<open>;\<close> the split is malformed.\<close>
  "session_parts reading decoded =
     (if CHR '';'' \<notin> set decoded then None
      else (case reading of
              AtFirst \<Rightarrow>
                Some (takeWhile (\<lambda>c. c \<noteq> CHR '';'') decoded,
                      drop 1 (dropWhile (\<lambda>c. c \<noteq> CHR '';'') decoded))
            | AtLast \<Rightarrow>
                Some (rev (drop 1 (dropWhile (\<lambda>c. c \<noteq> CHR '';'') (rev decoded))),
                      rev (takeWhile (\<lambda>c. c \<noteq> CHR '';'') (rev decoded)))))"

definition decryptSession ::
  "dbAuth_runtime \<Rightarrow> APIGatewayProxyEvent \<Rightarrow> sessionError + (json_object \<times> string) option" where
  \<comment> \<open>Modelled from the spec: \<open>_decryptSession\<close> is missing. \<open>Inr None\<close> is the empty
      result, for no session cookie and for an empty one. A failing decryption, a
      malformed split and a payload that does not parse all fail with
      \<open>SessionDecryptionError\<close>.\<close>
  "decryptSession rt event =
     (case getSession event of
        None \<Rightarrow> Inr None
      | Some s \<Rightarrow>
          if s = [] then Inr None
          else (case AES_decrypt rt s (SESSION_SECRET rt) of
                  None \<Rightarrow> Inl SessionDecryptionError
                | Some decoded \<Rightarrow>
                    (case session_parts (splitAt rt) decoded of
                       None \<Rightarrow> Inl SessionDecryptionError
                     | Some (data, csrf) \<Rightarrow>
                         (case JSON_parse rt data of
                            None \<Rightarrow> Inl SessionDecryptionError
                          | Some json \<Rightarrow> Inr (Some (json, csrf))))))"

text \<open>
  Cookie headers as the specification describes them: pairs \<open>name=value\<close>, delimited by
  \<open>;\<close> or by \<open>;\<close> and a space. A cookie is given by its name, its value and whether a
  space precedes it; names hold no \<open>;\<close> and no \<open>=\<close> and do not start with a space, values
  hold no \<open>;\<close>.
\<close>

type_synonym cookie = "bool \<times> string \<times> string"

definition render_cookie :: "cookie \<Rightarrow> string" where
  "render_cookie = (\<lambda>(spaced, name, val). (if spaced then '' '' else []) @ name @ ''='' @ val)"

definition cookie_header :: "cookie list \<Rightarrow> string" where
  "cookie_header cookies = join '';'' (map render_cookie cookies)"

definition plain_cookie :: "cookie \<Rightarrow> bool" where
  "plain_cookie =
     (\<lambda>(spaced, name, val).
        CHR '';'' \<notin> set name \<and> CHR ''='' \<notin> set name \<and> take 1 name \<noteq> '' ''
        \<and> CHR '';'' \<notin> set val)"

definition session_cookie :: "cookie list \<Rightarrow> string option" where
  "session_cookie cookies = map_of (map (\<lambda>(spaced, name, val). (name, val)) cookies) ''session''"

subsection \<open>A concrete runtime\<close>

text \<open>
  Concrete surroundings, to run the definitions on concrete requests: the HMAC-SHA-256
  digests of the messages used below, and the results of AES decryption for the
  ciphertexts and passphrases used below (the first ciphertext is the one of the test
  suite, under its \<open>SESSION_SECRET\<close>; under the passphrase \<open>wrong-secret-7\<close> its bytes are
  no UTF-8; every other pair is given the empty plaintext), and \<open>JSON.parse\<close> restricted
  to flat objects of strings and non-negative integers. The split is taken at the first
  \<open>;\<close>.
\<close>

definition hmac_vectors :: "((string \<times> string) \<times> string) list" where
  "hmac_vectors =
     [((''MY_VOICE_IS_MY_PASSPORT_VERIFY_ME'', ''1625000000000.hello''),
       ''4ae7d8f24ba49a6cf26a4d1784d9bcd155132158571350a9f6d73639faaecdcf''),
      ((''MY_VOICE_IS_MY_PASSPORT_VERIFY_ME'', ''1e+21.hello''),
       ''5aefaa0a1f12116a42f040053e67ea64a2751eaab2dba7ce4a052ca8ffc85ee2''),
      ((''MY_VOICE_IS_MY_PASSPORT_VERIFY_ME'', ''1625000000000.''),
       ''d4195b5881a19c7e5909b2c64ba3d74ef32ee58e43572765d0abc214b410f970''),
      ((''MY_VOICE_IS_MY_PASSPORT_VERIFY_ME'', ''01625000000000.hello''),
       ''c9b45a54c0bc9655bc1089179546469072d930b45781b7a13876291e49c2be6e'')]"

definition sample_hmac :: "string \<Rightarrow> string \<Rightarrow> string" where
  "sample_hmac k m = (case map_of hmac_vectors (k, m) of Some d \<Rightarrow> d | None \<Rightarrow> checksum_hmac k m)"

definition webhook_runtime :: runtime where
  "webhook_runtime =
     \<lparr>WEBHOOK_SECRET = ''MY_VOICE_IS_MY_PASSPORT_VERIFY_ME'',
      Date_now = 1625000000000,
      createHmac = sample_hmac\<rparr>"

definition aes_vectors :: "((string \<times> string) \<times> string option) list" where
  \<open>aes_vectors =
     [((''U2FsdGVkX1/zRHVlEQhffsOufy7VLRAR6R4gb818vxblQQJFZI6W/T8uzxNUbQMx'',
        ''nREjs1HPS7cFia6tQHK70EWGtfhOgbqJQKsHQz3S''), Some ''{"foo":"bar"};abcd''),
      ((''U2FsdGVkX18BAgMEBQYHCBfUbNbQZr0qBpnw2Of1mP8='',
        ''nREjs1HPS7cFia6tQHK70EWGtfhOgbqJQKsHQz3S''), Some ''{"a":";"};token''),
      ((''qwerty'', ''nREjs1HPS7cFia6tQHK70EWGtfhOgbqJQKsHQz3S''), Some []),
      ((''U2FsdGVkX1/zRHVlEQhffsOufy7VLRAR6R4gb818vxblQQJFZI6W/T8uzxNUbQMx'',
        ''wrong-secret-7''), None)]\<close>

definition sample_AES_decrypt :: "string \<Rightarrow> string \<Rightarrow> string option" where
  "sample_AES_decrypt c k = (case map_of aes_vectors (c, k) of None \<Rightarrow> Some [] | Some r \<Rightarrow> r)"

definition parse_quoted :: "string \<Rightarrow> (string \<times> string) option" where
  \<open>parse_quoted s =
     (case s of
        [] \<Rightarrow> None
      | c # r \<Rightarrow>
          if c \<noteq> CHR ''"'' then None
          else (case dropWhile (\<lambda>x. x \<noteq> CHR ''"'') r of
                  [] \<Rightarrow> None
                | _ # rest \<Rightarrow>
                    if CHR 0x5C \<in> set (takeWhile (\<lambda>x. x \<noteq> CHR ''"'') r) then None
                    else Some (takeWhile (\<lambda>x. x \<noteq> CHR ''"'') r, rest)))\<close>

definition parse_value :: "string \<Rightarrow> (jvalue \<times> string) option" where
  "parse_value s =
     (case parse_quoted s of
        Some (v, rest) \<Rightarrow> Some (JString v, rest)
      | None \<Rightarrow>
          if takeWhile is_digit s = [] then None
          else Some (JNumber (js_Number (takeWhile is_digit s)), dropWhile is_digit s))"

fun parse_members :: "nat \<Rightarrow> string \<Rightarrow> json_object option" where
  "parse_members 0 s = None"
| "parse_members (Suc n) s =
     (case parse_quoted s of
        None \<Rightarrow> None
      | Some (k, r) \<Rightarrow>
          (case strip_prefix '':'' r of
             None \<Rightarrow> None
           | Some r1 \<Rightarrow>
               (case parse_value r1 of
                  None \<Rightarrow> None
                | Some (v, r2) \<Rightarrow>
                    if r2 = ''}'' then Some [(k, v)]
                    else (case strip_prefix '','' r2 of
                            None \<Rightarrow> None
                          | Some r3 \<Rightarrow> map_option ((#) (k, v)) (parse_members n r3)))))"

definition sample_parse :: "string \<Rightarrow> json_object option" where
  "sample_parse s =
     (if s = ''{}'' then Some []
      else (case strip_prefix ''{'' s of None \<Rightarrow> None | Some r \<Rightarrow> parse_members (length r) r))"

definition sample_runtime :: dbAuth_runtime where
  "sample_runtime =
     \<lparr>SESSION_SECRET = ''nREjs1HPS7cFia6tQHK70EWGtfhOgbqJQKsHQz3S'',
      AES_decrypt = sample_AES_decrypt,
      JSON_parse = sample_parse,
      splitAt = AtFirst\<rparr>"

section \<open>Numbers and strings\<close>

lemma digit_char_is_digit: "d < 10 \<Longrightarrow> is_digit (digit_char d)"
  unfolding is_digit_def digit_char_def by (rule nth_mem) (simp add: digit_chars_def)

lemma digit_val_digit_char: "d < 10 \<Longrightarrow> digit_val (digit_char d) = d"
proof -
  assume "d < 10"
  then have "d \<in> {0,1,2,3,4,5,6,7,8,9}" by auto
  then show ?thesis
    by (auto simp: digit_val_def digit_char_def digit_chars_def)
qed

lemma dec_nonempty: "dec n \<noteq> []"
  by (subst dec.simps) simp

lemma dec_all_digits: "\<forall>c \<in> set (dec n). is_digit c"
proof (induction n rule: dec.induct)
  case (1 n)
  show ?case
  proof (cases "n < 10")
    case True
    then show ?thesis by (subst dec.simps) (simp add: digit_char_is_digit)
  next
    case False
    with 1 show ?thesis by (subst dec.simps) (simp add: digit_char_is_digit)
  qed
qed

lemma foldl_dec: "foldl (\<lambda>a c. 10 * a + digit_val c) 0 (dec n) = n"
proof (induction n rule: dec.induct)
  case (1 n)
  show ?case
  proof (cases "n < 10")
    case True
    then show ?thesis by (subst dec.simps) (simp add: digit_val_digit_char)
  next
    case False
    with 1 show ?thesis by (subst dec.simps) (simp add: digit_val_digit_char)
  qed
qed

lemma js_Number_dec: "js_Number (dec n) = int n"
  by (simp add: js_Number_def foldl_dec)

lemma js_number_to_string_small: "n < 10 ^ 21 \<Longrightarrow> js_number_to_string (int n) = dec n"
  by (simp add: js_number_to_string_def js_nat_to_string_def)

section \<open>The regular expression of verifySignature\<close>

lemma strip_prefix_iff: "strip_prefix p s = Some r \<longleftrightarrow> s = p @ r"
  by (induction p s rule: strip_prefix.induct) auto

lemma strip_prefix_append: "strip_prefix p (p @ r) = Some r"
  by (simp add: strip_prefix_iff)

lemma comma_not_digit: "\<not> is_digit (CHR '','')"
  by (simp add: is_digit_def digit_chars_def)

lemma takeWhile_run:
  "\<forall>c \<in> set xs. P c \<Longrightarrow> \<not> P y \<Longrightarrow> takeWhile P (xs @ y # ys) = xs"
  by (induction xs) auto

lemma dropWhile_run:
  "\<forall>c \<in> set xs. P c \<Longrightarrow> \<not> P y \<Longrightarrow> dropWhile P (xs @ y # ys) = y # ys"
  by (induction xs) auto

lemma takeWhile_all: "\<forall>c \<in> set xs. P c \<Longrightarrow> takeWhile P xs = xs"
  by (induction xs) auto

lemma takeWhile_prefix_nonempty:
  "xs \<noteq> [] \<Longrightarrow> \<forall>c \<in> set xs. P c \<Longrightarrow> takeWhile P (xs @ ys) \<noteq> []"
  by (cases xs) auto

lemma match_at_sound:
  assumes "match_at s = Some (ds, hs)"
  shows "\<exists>post. s = ''t='' @ ds @ '',v1='' @ hs @ post
           \<and> ds \<noteq> [] \<and> (\<forall>c \<in> set ds. is_digit c) \<and> hs \<noteq> [] \<and> (\<forall>c \<in> set hs. is_hex c)"
proof -
  from assms obtain r1 where r1: "strip_prefix ''t='' s = Some r1"
    by (auto simp: match_at_def split: option.splits)
  from assms r1 have ds: "ds = takeWhile is_digit r1" and ne: "ds \<noteq> []"
    by (auto simp: match_at_def split: option.splits if_splits)
  from assms r1 obtain r2 where r2: "strip_prefix '',v1='' (dropWhile is_digit r1) = Some r2"
    by (auto simp: match_at_def split: option.splits if_splits)
  from assms r1 r2 have hs: "hs = takeWhile is_hex r2" and nh: "hs \<noteq> []"
    by (auto simp: match_at_def split: option.splits if_splits)
  have s: "s = ''t='' @ r1" using r1 by (simp only: strip_prefix_iff)
  have d: "dropWhile is_digit r1 = '',v1='' @ r2" using r2 by (simp only: strip_prefix_iff)
  have "r1 = ds @ dropWhile is_digit r1" by (simp add: ds)
  then have r1eq: "r1 = ds @ '',v1='' @ r2" using d by simp
  have "r2 = hs @ dropWhile is_hex r2" by (simp add: hs)
  with s r1eq have "s = ''t='' @ ds @ '',v1='' @ hs @ dropWhile is_hex r2" by simp
  moreover have "\<forall>c \<in> set ds. is_digit c" unfolding ds by (auto dest: set_takeWhileD)
  moreover have "\<forall>c \<in> set hs. is_hex c" unfolding hs by (auto dest: set_takeWhileD)
  ultimately show ?thesis using ne nh by blast
qed

lemma match_at_complete:
  assumes "ds \<noteq> []" "\<forall>c \<in> set ds. is_digit c" "hs \<noteq> []" "\<forall>c \<in> set hs. is_hex c"
  shows "match_at (''t='' @ ds @ '',v1='' @ hs @ post)
           = Some (ds, takeWhile is_hex (hs @ post))"
proof -
  have t: "takeWhile is_digit (ds @ '',v1='' @ hs @ post) = ds"
    using takeWhile_run [OF assms(2) comma_not_digit] by simp
  have d: "dropWhile is_digit (ds @ '',v1='' @ hs @ post) = '',v1='' @ hs @ post"
    using dropWhile_run [OF assms(2) comma_not_digit] by simp
  have h: "takeWhile is_hex (hs @ post) \<noteq> []"
    using takeWhile_prefix_nonempty [OF assms(3,4)] .
  have p1: "strip_prefix ''t='' (''t='' @ ds @ '',v1='' @ hs @ post) = Some (ds @ '',v1='' @ hs @ post)"
    by (rule strip_prefix_append)
  have p2: "strip_prefix '',v1='' ('',v1='' @ hs @ post) = Some (hs @ post)"
    by (rule strip_prefix_append)
  show ?thesis
    unfolding match_at_def p1 by (simp only: t d p2 h assms(1) option.case if_False)
qed

lemma regex_exec_None_iff:
  "regex_exec s = None \<longleftrightarrow> (\<forall>pre suf. s = pre @ suf \<longrightarrow> match_at suf = None)"
proof (induction s)
  case Nil
  then show ?case by (simp add: match_at_def)
next
  case (Cons c cs)
  show ?case
  proof
    assume a: "regex_exec (c # cs) = None"
    then have m: "match_at (c # cs) = None" and r: "regex_exec cs = None"
      by (auto split: option.splits)
    show "\<forall>pre suf. c # cs = pre @ suf \<longrightarrow> match_at suf = None"
    proof (intro allI impI)
      fix pre suf assume e: "c # cs = pre @ suf"
      show "match_at suf = None"
      proof (cases pre)
        case Nil
        with e m show ?thesis by simp
      next
        case (Cons p ps)
        with e have "cs = ps @ suf" by simp
        with r Cons.IH show ?thesis by blast
      qed
    qed
  next
    assume a: "\<forall>pre suf. c # cs = pre @ suf \<longrightarrow> match_at suf = None"
    then have m: "match_at (c # cs) = None" by (metis append_Nil)
    have "\<forall>pre suf. cs = pre @ suf \<longrightarrow> match_at suf = None"
      using a by (metis append_Cons)
    with Cons.IH have "regex_exec cs = None" by blast
    with m show "regex_exec (c # cs) = None" by simp
  qed
qed

lemma regex_exec_None_contains: "regex_exec s = None \<longleftrightarrow> \<not> contains_signature s"
proof
  assume n: "regex_exec s = None"
  show "\<not> contains_signature s"
  proof
    assume "contains_signature s"
    then obtain pre ds hs post where
      s: "s = pre @ ''t='' @ ds @ '',v1='' @ hs @ post" and
      c: "ds \<noteq> []" "\<forall>c \<in> set ds. is_digit c" "hs \<noteq> []" "\<forall>c \<in> set hs. is_hex c"
      unfolding contains_signature_def by blast
    from n s have "match_at (''t='' @ ds @ '',v1='' @ hs @ post) = None"
      unfolding regex_exec_None_iff by blast
    with match_at_complete [OF c] show False by simp
  qed
next
  assume n: "\<not> contains_signature s"
  show "regex_exec s = None"
    unfolding regex_exec_None_iff
  proof (intro allI impI)
    fix pre suf assume e: "s = pre @ suf"
    show "match_at suf = None"
    proof (rule ccontr)
      assume "match_at suf \<noteq> None"
      then obtain ds hs where "match_at suf = Some (ds, hs)" by auto
      from match_at_sound [OF this] e have "contains_signature s"
        unfolding contains_signature_def by blast
      with n show False ..
    qed
  qed
qed

lemma regex_exec_exact:
  assumes "ds \<noteq> []" "\<forall>c \<in> set ds. is_digit c" "hs \<noteq> []" "\<forall>c \<in> set hs. is_hex c"
  shows "regex_exec (''t='' @ ds @ '',v1='' @ hs) = Some (ds, hs)"
proof -
  have "match_at (''t='' @ ds @ '',v1='' @ hs @ []) = Some (ds, takeWhile is_hex (hs @ []))"
    by (rule match_at_complete [OF assms])
  then have "match_at (''t='' @ ds @ '',v1='' @ hs) = Some (ds, hs)"
    by (simp add: takeWhile_all [OF assms(4)])
  then show ?thesis by simp
qed



section \<open>verifySignature on well-formed headers\<close>

lemma hex_digestsD:
  "hex_digests rt \<Longrightarrow> createHmac rt k m \<noteq> [] \<and> (\<forall>c \<in> set (createHmac rt k m). is_hex c)"
  by (simp add: hex_digests_def)

lemma verifySignature_exact:
  assumes "ds \<noteq> []" "\<forall>c \<in> set ds. is_digit c" "hs \<noteq> []" "\<forall>c \<in> set hs. is_hex c"
    and "the_secret rt secret \<noteq> []"
  shows "verifySignature rt b secret (Some (''t='' @ ds @ '',v1='' @ hs)) options =
         (if \<bar>check_time rt options - js_Number ds\<bar> > the_tolerance options
          then Inl (ForbiddenError ERROR_MESSAGE)
          else if createHmac rt (the_secret rt secret)
                    (js_number_to_string (js_Number ds) @ ''.'' @ b) = hs
          then Inr True else Inl (ForbiddenError ERROR_MESSAGE))"
proof -
  have r: "regex_exec (js_String (Some (''t='' @ ds @ '',v1='' @ hs))) = Some (ds, hs)"
    unfolding js_String_def by (simp only: option.case regex_exec_exact [OF assms(1-4)])
  show ?thesis
    unfolding verifySignature_def r using assms(5)
    by (simp add: Let_def getHmac_def the_secret_def check_time_def the_tolerance_def
        split: option.splits)
qed

lemma checksum_hmac_hex:
  "checksum_hmac k m \<noteq> [] \<and> (\<forall>c \<in> set (checksum_hmac k m). is_hex c)"
proof -
  have "hex_chars ! (n mod 16) \<in> set hex_chars" for n
    by (rule nth_mem) (simp add: hex_chars_def)
  then show ?thesis by (simp add: checksum_hmac_def is_hex_def)
qed

lemma hmac_vectors_hex:
  "map_of hmac_vectors km = Some d \<Longrightarrow> d \<noteq> [] \<and> (\<forall>c \<in> set d. is_hex c)"
  by (auto simp: hmac_vectors_def is_hex_def hex_chars_def split: if_splits)

lemma hex_digests_webhook_runtime: "hex_digests webhook_runtime"
  unfolding hex_digests_def webhook_runtime_def sample_hmac_def
  using checksum_hmac_hex hmac_vectors_hex by (auto split: option.splits)

lemma sign_small:
  assumes "s \<noteq> []" and "t < 10 ^ 21"
  shows "sign rt b (Some s) (Some (int t))
           = Inr (''t='' @ dec t @ '',v1='' @ createHmac rt s (dec t @ ''.'' @ b))"
  using assms by (simp add: sign_def getHmac_def js_number_to_string_small)

lemma verify_signed_small:
  assumes "hex_digests rt" and "s \<noteq> []" and "t < 10 ^ 21"
  shows "verifySignature rt b (Some s)
           (Some (''t='' @ dec t @ '',v1='' @ createHmac rt s (dec t @ ''.'' @ b)))
           (Some \<lparr>tolerance = None, timestamp = Some (int t)\<rparr>) = Inr True"
proof -
  let ?h = "createHmac rt s (dec t @ ''.'' @ b)"
  have h: "?h \<noteq> []" "\<forall>c \<in> set ?h. is_hex c"
    using hex_digestsD [OF assms(1)] by blast+
  have s: "the_secret rt (Some s) \<noteq> []" using assms(2) by (simp add: the_secret_def)
  show ?thesis
    by (subst verifySignature_exact [OF dec_nonempty dec_all_digits h s])
       (simp add: js_Number_dec js_number_to_string_small [OF assms(3)] the_secret_def
          check_time_def the_tolerance_def DEFAULT_TOLERANCE_def FIVE_MINUTES_def)
qed

lemma verifySignature_no_match:
  "regex_exec (js_String signature) = None \<Longrightarrow>
   verifySignature rt b secret signature options = Inl (ForbiddenError ERROR_MESSAGE)"
  by (simp add: verifySignature_def)

lemma verifySignature_results:
  "verifySignature rt b secret signature options = Inr True
   \<or> verifySignature rt b secret signature options = Inl (ForbiddenError ERROR_MESSAGE)"
  by (simp add: verifySignature_def getHmac_def Let_def split: option.splits)

lemma verifySignature_empty_secret:
  "the_secret rt secret = [] \<Longrightarrow>
   verifySignature rt b secret signature options = Inl (ForbiddenError ERROR_MESSAGE)"
  by (simp add: verifySignature_def getHmac_def Let_def the_secret_def split: option.splits)

lemma sample_hmac_hello:
  "createHmac webhook_runtime ''MY_VOICE_IS_MY_PASSPORT_VERIFY_ME'' ''1625000000000.hello''
     = ''4ae7d8f24ba49a6cf26a4d1784d9bcd155132158571350a9f6d73639faaecdcf''"
  by (simp add: webhook_runtime_def sample_hmac_def hmac_vectors_def)

lemma js_Number_sample: "js_Number ''1625000000000'' = 1625000000000"
  by (simp add: js_Number_def digit_val_def)

lemma js_number_to_string_sample: "js_number_to_string 1625000000000 = ''1625000000000''"
  by (simp add: js_number_to_string_def js_nat_to_string_def dec.simps digit_char_def
      digit_chars_def)

lemma sample_digits: "''1625000000000'' \<noteq> [] \<and> (\<forall>c \<in> set ''1625000000000''. is_digit c)"
  by (simp add: is_digit_def digit_chars_def)

lemma header_key: "toLocaleLowerCase WEBHOOK_SIGNTAURE_HEADER = ''rw-webhook-signature''"
  by (simp add: toLocaleLowerCase_def WEBHOOK_SIGNTAURE_HEADER_def to_lower_def)

section \<open>Webhook claims\<close>

text \<open>
  Claim C2, as amended. For every body, every non-empty secret and every natural-number
  timestamp below \<open>10^21\<close> (the numbers JavaScript prints in plain decimal digits),
  \<open>sign\<close> returns a header, and \<open>verifySignature\<close> on that header, with the same body and
  secret and the check time set to the signing time, returns true. The digest function is
  any one with hexadecimal output.
\<close>

theorem sign_verify_roundtrip:
  assumes "hex_digests rt" and "s \<noteq> []" and "t < 10 ^ 21"
  shows "\<exists>sig. sign rt b (Some s) (Some (int t)) = Inr sig
           \<and> verifySignature rt b (Some s) (Some sig)
                (Some \<lparr>tolerance = None, timestamp = Some (int t)\<rparr>) = Inr True"
  using sign_small [OF assms(2,3)] verify_signed_small [OF assms] by blast

theorem sign_verify_roundtrip_witness:
  "hex_digests webhook_runtime \<and> ''MY_VOICE_IS_MY_PASSPORT_VERIFY_ME'' \<noteq> []
   \<and> (1625000000000::nat) < 10 ^ 21
   \<and> (\<exists>sig. sign webhook_runtime ''hello'' (Some ''MY_VOICE_IS_MY_PASSPORT_VERIFY_ME'')
                (Some (int 1625000000000)) = Inr sig
          \<and> verifySignature webhook_runtime ''hello'' (Some ''MY_VOICE_IS_MY_PASSPORT_VERIFY_ME'')
               (Some sig) (Some \<lparr>tolerance = None, timestamp = Some (int 1625000000000)\<rparr>)
             = Inr True)"
proof -
  have a: "hex_digests webhook_runtime" by (rule hex_digests_webhook_runtime)
  have b: "''MY_VOICE_IS_MY_PASSPORT_VERIFY_ME'' \<noteq> []" by simp
  have c: "(1625000000000::nat) < 10 ^ 21" by simp
  from a b c sign_verify_roundtrip [OF a b c, of "''hello''"] show ?thesis by blast
qed

lemma sign_1e21:
  "sign webhook_runtime ''hello'' (Some ''MY_VOICE_IS_MY_PASSPORT_VERIFY_ME'')
     (Some 1000000000000000000000)
   = Inr ''t=1e+21,v1=5aefaa0a1f12116a42f040053e67ea64a2751eaab2dba7ce4a052ca8ffc85ee2''"
  by (simp add: sign_def webhook_runtime_def getHmac_def js_number_to_string_def
      js_nat_to_string_def dec.simps digit_char_def digit_chars_def strip_trailing_zeros_def
      sample_hmac_def hmac_vectors_def)

text \<open>
  Claim C2 as stated fails at the timestamp \<open>10^21\<close>: \<open>sign\<close> prints it as \<open>1e+21\<close>, which
  the pattern \<open>t=(\d+),v1=\<close> of \<open>verifySignature\<close> does not match, so the header that
  \<open>sign\<close> produced is rejected.
\<close>

theorem sign_verify_roundtrip_counterexample:
  "sign webhook_runtime ''hello'' (Some ''MY_VOICE_IS_MY_PASSPORT_VERIFY_ME'')
     (Some 1000000000000000000000)
   = Inr ''t=1e+21,v1=5aefaa0a1f12116a42f040053e67ea64a2751eaab2dba7ce4a052ca8ffc85ee2''
   \<and> verifySignature webhook_runtime ''hello'' (Some ''MY_VOICE_IS_MY_PASSPORT_VERIFY_ME'')
        (Some ''t=1e+21,v1=5aefaa0a1f12116a42f040053e67ea64a2751eaab2dba7ce4a052ca8ffc85ee2'')
        (Some \<lparr>tolerance = None, timestamp = Some 1000000000000000000000\<rparr>)
     = Inl (ForbiddenError ERROR_MESSAGE)"
proof -
  have "regex_exec ''t=1e+21,v1=5aefaa0a1f12116a42f040053e67ea64a2751eaab2dba7ce4a052ca8ffc85ee2''
          = None"
    by (simp add: match_at_def is_digit_def digit_chars_def)
  then have "verifySignature webhook_runtime ''hello'' (Some ''MY_VOICE_IS_MY_PASSPORT_VERIFY_ME'')
        (Some ''t=1e+21,v1=5aefaa0a1f12116a42f040053e67ea64a2751eaab2dba7ce4a052ca8ffc85ee2'')
        (Some \<lparr>tolerance = None, timestamp = Some 1000000000000000000000\<rparr>)
     = Inl (ForbiddenError ERROR_MESSAGE)"
    by (simp add: verifySignature_def js_String_def)
  with sign_1e21 show ?thesis by blast
qed

text \<open>
  Claim C4, as amended. The pattern is not anchored: \<open>verifySignature\<close> fails at once
  with \<open>ForbiddenError\<close>, whatever the body, the secret, the clock and the options, for every
  header that has no part of the form \<open>t=<digits>,v1=<hex>\<close>; so it accepts a header only
  when the header contains such a part.
\<close>

theorem malformed_signature_forbidden:
  "\<not> contains_signature (js_String signature) \<Longrightarrow>
   verifySignature rt b secret signature options = Inl (ForbiddenError ERROR_MESSAGE)"
  by (rule verifySignature_no_match) (simp add: regex_exec_None_contains)

theorem malformed_signature_forbidden_witness:
  "\<not> contains_signature (js_String (Some ''v1=4ae7d8f2,t=1625000000000''))
   \<and> verifySignature webhook_runtime ''hello'' (Some ''MY_VOICE_IS_MY_PASSPORT_VERIFY_ME'')
        (Some ''v1=4ae7d8f2,t=1625000000000'')
        (Some \<lparr>tolerance = None, timestamp = Some 1625000000000\<rparr>)
      = Inl (ForbiddenError ERROR_MESSAGE)"
proof -
  have "regex_exec (js_String (Some ''v1=4ae7d8f2,t=1625000000000'')) = None"
    by (simp add: js_String_def match_at_def is_digit_def digit_chars_def)
  then have n: "\<not> contains_signature (js_String (Some ''v1=4ae7d8f2,t=1625000000000''))"
    using regex_exec_None_contains by blast
  from n malformed_signature_forbidden [OF n] show ?thesis by blast
qed

text \<open>
  Claim C4 as stated fails: a header that is not of the form \<open>t=<digits>,v1=<hex>\<close> as a
  whole, but carries a valid signature between other characters, is accepted.
\<close>

theorem malformed_signature_counterexample:
  "\<not> exact_signature
       ''sig: t=1625000000000,v1=4ae7d8f24ba49a6cf26a4d1784d9bcd155132158571350a9f6d73639faaecdcf; v0=00''
   \<and> verifySignature webhook_runtime ''hello'' (Some ''MY_VOICE_IS_MY_PASSPORT_VERIFY_ME'')
        (Some ''sig: t=1625000000000,v1=4ae7d8f24ba49a6cf26a4d1784d9bcd155132158571350a9f6d73639faaecdcf; v0=00'')
        (Some \<lparr>tolerance = None, timestamp = Some 1625000000000\<rparr>)
      = Inr True"
proof -
  have r: "regex_exec
       ''sig: t=1625000000000,v1=4ae7d8f24ba49a6cf26a4d1784d9bcd155132158571350a9f6d73639faaecdcf; v0=00''
     = Some (''1625000000000'', ''4ae7d8f24ba49a6cf26a4d1784d9bcd155132158571350a9f6d73639faaecdcf'')"
    by (simp add: match_at_def is_digit_def digit_chars_def is_hex_def hex_chars_def)
  have n: "js_Number ''1625000000000'' = 1625000000000"
    by (simp add: js_Number_def digit_val_def)
  have d: "js_number_to_string 1625000000000 = ''1625000000000''"
    by (simp add: js_number_to_string_def js_nat_to_string_def dec.simps digit_char_def
        digit_chars_def)
  have "verifySignature webhook_runtime ''hello'' (Some ''MY_VOICE_IS_MY_PASSPORT_VERIFY_ME'')
        (Some ''sig: t=1625000000000,v1=4ae7d8f24ba49a6cf26a4d1784d9bcd155132158571350a9f6d73639faaecdcf; v0=00'')
        (Some \<lparr>tolerance = None, timestamp = Some 1625000000000\<rparr>)
      = Inr True"
    unfolding verifySignature_def js_String_def
    by (simp only: option.case r) (simp add: n d webhook_runtime_def getHmac_def
          DEFAULT_TOLERANCE_def FIVE_MINUTES_def sample_hmac_def hmac_vectors_def)
  moreover have "\<not> exact_signature
       ''sig: t=1625000000000,v1=4ae7d8f24ba49a6cf26a4d1784d9bcd155132158571350a9f6d73639faaecdcf; v0=00''"
    by (simp add: exact_signature_def)
  ultimately show ?thesis by blast
qed





text \<open>
  Claim C6, as amended. Whatever the arguments, \<open>verifySignature\<close> either returns true or
  fails with \<open>ForbiddenError\<close> carrying the one message \<open>ERROR_MESSAGE\<close>, so the error does
  not tell which check failed; and when the secret in use is empty (the argument is the
  empty string, or it is undefined and \<open>WEBHOOK_SECRET\<close> is empty), it fails for every body
  and every signature.
\<close>

theorem undifferentiated_failure:
  "(verifySignature rt b secret signature options = Inr True
    \<or> verifySignature rt b secret signature options = Inl (ForbiddenError ERROR_MESSAGE))
   \<and> (the_secret rt secret = [] \<longrightarrow>
        verifySignature rt b secret signature options = Inl (ForbiddenError ERROR_MESSAGE))"
  using verifySignature_results verifySignature_empty_secret by blast

theorem undifferentiated_failure_witness:
  "the_secret webhook_runtime (Some []) = []
   \<and> verifySignature webhook_runtime ''hello'' (Some [])
        (Some ''t=1625000000000,v1=4ae7d8f24ba49a6cf26a4d1784d9bcd155132158571350a9f6d73639faaecdcf'')
        (Some \<lparr>tolerance = None, timestamp = Some 1625000000000\<rparr>)
      = Inl (ForbiddenError ERROR_MESSAGE)"
  using undifferentiated_failure [of webhook_runtime "''hello''" "Some []"
      "Some ''t=1625000000000,v1=4ae7d8f24ba49a6cf26a4d1784d9bcd155132158571350a9f6d73639faaecdcf''"
      "Some \<lparr>tolerance = None, timestamp = Some 1625000000000\<rparr>"]
  by (simp add: the_secret_def)

text \<open>
  Claim C6 as stated fails for an undefined secret: the parameter then takes its default,
  \<open>WEBHOOK_SECRET\<close>, and a header signed with that secret is accepted.
\<close>

theorem undefined_secret_counterexample:
  "verifySignature webhook_runtime ''hello'' None
     (Some ''t=1625000000000,v1=4ae7d8f24ba49a6cf26a4d1784d9bcd155132158571350a9f6d73639faaecdcf'')
     (Some \<lparr>tolerance = None, timestamp = Some 1625000000000\<rparr>)
   = Inr True"
proof -
  have d: "''1625000000000'' \<noteq> []" "\<forall>c \<in> set ''1625000000000''. is_digit c"
    using sample_digits by blast+
  have h: "''4ae7d8f24ba49a6cf26a4d1784d9bcd155132158571350a9f6d73639faaecdcf'' \<noteq> []"
    "\<forall>c \<in> set ''4ae7d8f24ba49a6cf26a4d1784d9bcd155132158571350a9f6d73639faaecdcf''. is_hex c"
    by (simp_all add: is_hex_def hex_chars_def)
  have s: "the_secret webhook_runtime None = ''MY_VOICE_IS_MY_PASSPORT_VERIFY_ME''"
    by (simp add: the_secret_def webhook_runtime_def)
  then have n: "the_secret webhook_runtime None \<noteq> []" by simp
  from verifySignature_exact [OF d h n, of "''hello''"
      "Some \<lparr>tolerance = None, timestamp = Some 1625000000000\<rparr>"]
  show ?thesis
    by (simp add: s js_Number_sample js_number_to_string_sample sample_hmac_hello
        check_time_def the_tolerance_def DEFAULT_TOLERANCE_def FIVE_MINUTES_def)
qed

text \<open>
  Claim C10. \<open>verify\<close> is \<open>verifySignature\<close> on the event's body, or on the empty string
  when the event has no body, with the secret \<open>WEBHOOK_SECRET\<close> and the signature read from
  the header \<open>rw-webhook-signature\<close>; so an event without a body whose header is what
  \<open>sign\<close> returns for the empty string is verified.
\<close>

theorem verify_event:
  "verify rt event options
     = verifySignature rt (case body event of None \<Rightarrow> [] | Some b \<Rightarrow> b)
         (Some (WEBHOOK_SECRET rt)) (headers event ''rw-webhook-signature'') options
   \<and> (body event = None \<longrightarrow> hex_digests rt \<longrightarrow> WEBHOOK_SECRET rt \<noteq> [] \<longrightarrow> t < 10 ^ 21 \<longrightarrow>
        sign rt [] (Some (WEBHOOK_SECRET rt)) (Some (int t)) = Inr sig \<longrightarrow>
        headers event ''rw-webhook-signature'' = Some sig \<longrightarrow>
        verify rt event (Some \<lparr>tolerance = None, timestamp = Some (int t)\<rparr>) = Inr True)"
proof -
  have v: "verify rt event opts
     = verifySignature rt (case body event of None \<Rightarrow> [] | Some b \<Rightarrow> b)
         (Some (WEBHOOK_SECRET rt)) (headers event ''rw-webhook-signature'') opts" for opts
    by (simp add: verify_def signatureFromEvent_def header_key)
  have "verify rt event (Some \<lparr>tolerance = None, timestamp = Some (int t)\<rparr>) = Inr True"
    if "body event = None" "hex_digests rt" "WEBHOOK_SECRET rt \<noteq> []" "t < 10 ^ 21"
      "sign rt [] (Some (WEBHOOK_SECRET rt)) (Some (int t)) = Inr sig"
      "headers event ''rw-webhook-signature'' = Some sig"
  proof -
    from that(5) have "sig = ''t='' @ dec t @ '',v1=''
                         @ createHmac rt (WEBHOOK_SECRET rt) (dec t @ ''.'' @ [])"
      by (simp add: sign_small [OF that(3,4)])
    with verify_signed_small [OF that(2,3,4), of "[]"] that(1,6) show ?thesis
      by (simp add: v)
  qed
  with v show ?thesis by blast
qed

theorem verify_event_witness:
  "body \<lparr>path = ''/webhook'', queryStringParameters = Map.empty, body = None,
         headers = [''rw-webhook-signature'' \<mapsto>
           ''t=1625000000000,v1=d4195b5881a19c7e5909b2c64ba3d74ef32ee58e43572765d0abc214b410f970'']\<rparr>
     = None
   \<and> hex_digests webhook_runtime \<and> WEBHOOK_SECRET webhook_runtime \<noteq> []
   \<and> (1625000000000::nat) < 10 ^ 21
   \<and> sign webhook_runtime [] (Some (WEBHOOK_SECRET webhook_runtime)) (Some (int 1625000000000))
       = Inr ''t=1625000000000,v1=d4195b5881a19c7e5909b2c64ba3d74ef32ee58e43572765d0abc214b410f970''
   \<and> verify webhook_runtime
        \<lparr>path = ''/webhook'', queryStringParameters = Map.empty, body = None,
         headers = [''rw-webhook-signature'' \<mapsto>
           ''t=1625000000000,v1=d4195b5881a19c7e5909b2c64ba3d74ef32ee58e43572765d0abc214b410f970'']\<rparr>
        (Some \<lparr>tolerance = None, timestamp = Some (int 1625000000000)\<rparr>) = Inr True"
proof -
  let ?ev = "\<lparr>path = ''/webhook'', queryStringParameters = Map.empty, body = None,
         headers = [''rw-webhook-signature'' \<mapsto>
           ''t=1625000000000,v1=d4195b5881a19c7e5909b2c64ba3d74ef32ee58e43572765d0abc214b410f970'']\<rparr>"
  have a: "body ?ev = None" by simp
  have b: "hex_digests webhook_runtime" by (rule hex_digests_webhook_runtime)
  have c: "WEBHOOK_SECRET webhook_runtime \<noteq> []" by (simp add: webhook_runtime_def)
  have d: "(1625000000000::nat) < 10 ^ 21" by simp
  have e: "sign webhook_runtime [] (Some (WEBHOOK_SECRET webhook_runtime)) (Some (int 1625000000000))
       = Inr ''t=1625000000000,v1=d4195b5881a19c7e5909b2c64ba3d74ef32ee58e43572765d0abc214b410f970''"
    by (simp add: sign_def webhook_runtime_def getHmac_def js_number_to_string_def
      js_nat_to_string_def dec.simps digit_char_def digit_chars_def
      sample_hmac_def hmac_vectors_def)
  have f: "headers ?ev ''rw-webhook-signature'' =
     Some ''t=1625000000000,v1=d4195b5881a19c7e5909b2c64ba3d74ef32ee58e43572765d0abc214b410f970''"
    by simp
  from verify_event [of webhook_runtime ?ev _ 1625000000000
      "''t=1625000000000,v1=d4195b5881a19c7e5909b2c64ba3d74ef32ee58e43572765d0abc214b410f970''"]
    a b c d e f
  have "verify webhook_runtime ?ev (Some \<lparr>tolerance = None, timestamp = Some (int 1625000000000)\<rparr>)
          = Inr True"
    by blast
  with a b c d e show ?thesis by blast
qed


section \<open>Cookie headers\<close>

lemma split_on_single: "c \<notin> set s \<Longrightarrow> split_on c s = [s]"
  by (induction s) auto

lemma split_on_append: "c \<notin> set x \<Longrightarrow> split_on c (x @ c # rest) = x # split_on c rest"
  by (induction x) auto

lemma split_on_join:
  "xs \<noteq> [] \<Longrightarrow> \<forall>x \<in> set xs. c \<notin> set x \<Longrightarrow> split_on c (join [c] xs) = xs"
proof (induction "[c]" xs rule: join.induct)
  case 1
  then show ?case by simp
next
  case (2 x)
  then show ?case by (simp add: split_on_single)
next
  case (3 x y ys)
  then have "split_on c (join [c] (y # ys)) = y # ys" by simp
  moreover have "c \<notin> set x" using 3 by simp
  ultimately show ?case by (simp add: split_on_append)
qed

lemma after_delimiter_render:
  assumes "plain_cookie (spaced, name, val)"
  shows "after_delimiter (render_cookie (spaced, name, val)) = name @ CHR ''='' # val"
proof (cases spaced)
  case True
  then show ?thesis by (simp add: after_delimiter_def render_cookie_def)
next
  case False
  from assms have "take 1 name \<noteq> '' ''" by (simp add: plain_cookie_def)
  then have "name = [] \<or> hd name \<noteq> CHR '' ''" by (cases name) auto
  with False show ?thesis
    by (cases name) (auto simp: after_delimiter_def render_cookie_def)
qed

lemma cookie_name_render:
  assumes "plain_cookie (spaced, name, val)"
  shows "cookie_name (render_cookie (spaced, name, val)) = name"
proof -
  have "\<forall>c \<in> set name. c \<noteq> CHR ''=''" using assms by (auto simp: plain_cookie_def)
  then have "takeWhile (\<lambda>c. c \<noteq> CHR ''='') (name @ CHR ''='' # val) = name"
    by (rule takeWhile_run) simp
  then show ?thesis by (simp add: cookie_name_def after_delimiter_render [OF assms])
qed

lemma cookie_value_render:
  assumes "plain_cookie (spaced, name, val)"
  shows "cookie_value (render_cookie (spaced, name, val)) = val"
proof -
  have "\<forall>c \<in> set name. c \<noteq> CHR ''=''" using assms by (auto simp: plain_cookie_def)
  then have "dropWhile (\<lambda>c. c \<noteq> CHR ''='') (name @ CHR ''='' # val) = CHR ''='' # val"
    by (rule dropWhile_run) simp
  then show ?thesis by (simp add: cookie_value_def after_delimiter_render [OF assms])
qed

lemma render_no_semicolon:
  "plain_cookie ck \<Longrightarrow> CHR '';'' \<notin> set (render_cookie ck)"
  by (cases ck) (auto simp: plain_cookie_def render_cookie_def)

lemma first_session_pair:
  "list_all plain_cookie cookies \<Longrightarrow>
   (case filter (\<lambda>pair. cookie_name pair = ''session'') (map render_cookie cookies) of
      [] \<Rightarrow> None
    | pair # _ \<Rightarrow> Some (cookie_value pair)) = session_cookie cookies"
proof (induction cookies)
  case Nil
  then show ?case by (simp add: session_cookie_def)
next
  case (Cons ck cookies)
  obtain spaced name val where ck: "ck = (spaced, name, val)" by (cases ck)
  from Cons.prems have p: "plain_cookie (spaced, name, val)" by (simp add: ck)
  from Cons have ih:
    "(case filter (\<lambda>pair. cookie_name pair = ''session'') (map render_cookie cookies) of
        [] \<Rightarrow> None
      | pair # _ \<Rightarrow> Some (cookie_value pair)) = session_cookie cookies"
    by simp
  show ?case
  proof (cases "name = ''session''")
    case True
    then show ?thesis
      using cookie_name_render [OF p] cookie_value_render [OF p]
      by (simp add: ck session_cookie_def)
  next
    case False
    then show ?thesis
      using cookie_name_render [OF p] ih by (simp add: ck session_cookie_def)
  qed
qed

lemma getSession_cookie_header:
  assumes "headers event ''cookie'' = Some (cookie_header cookies)"
    and "list_all plain_cookie cookies"
  shows "getSession event = session_cookie cookies"
proof (cases "cookies = []")
  case True
  then show ?thesis
    using assms(1)
    by (simp add: getSession_def cookie_header_def cookie_name_def after_delimiter_def
        session_cookie_def)
next
  case False
  have "\<forall>x \<in> set (map render_cookie cookies). CHR '';'' \<notin> set x"
    using assms(2) by (auto simp: list_all_iff render_no_semicolon)
  moreover have "map render_cookie cookies \<noteq> []" using False by simp
  ultimately have "split_on CHR '';'' (cookie_header cookies) = map render_cookie cookies"
    unfolding cookie_header_def by (rule split_on_join [rotated])
  then show ?thesis
    using assms(1) first_session_pair [OF assms(2)] by (simp add: getSession_def)
qed

section \<open>The session codec\<close>

lemma session_parts_None: "session_parts reading d = None \<longleftrightarrow> CHR '';'' \<notin> set d"
  by (cases reading) (simp_all add: session_parts_def)

lemma session_parts_first:
  assumes "CHR '';'' \<notin> set j"
  shows "session_parts AtFirst (j @ CHR '';'' # t) = Some (j, t)"
proof -
  have a: "\<forall>c \<in> set j. c \<noteq> CHR '';''" using assms by blast
  have "takeWhile (\<lambda>c. c \<noteq> CHR '';'') (j @ CHR '';'' # t) = j"
    using a by (rule takeWhile_run) simp
  moreover have "dropWhile (\<lambda>c. c \<noteq> CHR '';'') (j @ CHR '';'' # t) = CHR '';'' # t"
    using a by (rule dropWhile_run) simp
  ultimately show ?thesis by (simp add: session_parts_def)
qed

lemma session_parts_last:
  assumes "CHR '';'' \<notin> set t"
  shows "session_parts AtLast (j @ CHR '';'' # t) = Some (j, t)"
proof -
  have a: "\<forall>c \<in> set (rev t). c \<noteq> CHR '';''" using assms by auto
  have r: "rev (j @ CHR '';'' # t) = rev t @ CHR '';'' # rev j" by simp
  have "takeWhile (\<lambda>c. c \<noteq> CHR '';'') (rev t @ CHR '';'' # rev j) = rev t"
    using a by (rule takeWhile_run) simp
  moreover have "dropWhile (\<lambda>c. c \<noteq> CHR '';'') (rev t @ CHR '';'' # rev j) = CHR '';'' # rev j"
    using a by (rule dropWhile_run) simp
  ultimately show ?thesis unfolding session_parts_def r by simp
qed

lemma session_parts_split:
  assumes "(reading = AtFirst \<and> CHR '';'' \<notin> set j) \<or> (reading = AtLast \<and> CHR '';'' \<notin> set t)"
  shows "session_parts reading (j @ '';'' @ t) = Some (j, t)"
  using assms session_parts_first session_parts_last by auto

lemma sample_parse_unterminated: \<open>sample_parse ''{"a":"'' = None\<close>
  by (simp add: sample_parse_def parse_quoted_def parse_value_def is_digit_def digit_chars_def)

lemma sample_parse_foo: \<open>sample_parse ''{"foo":"bar"}'' = Some [(''foo'', JString ''bar'')]\<close>
  by (simp add: sample_parse_def parse_quoted_def parse_value_def)

text \<open>
  Claim C9. \<open>_decryptSession\<close> returns the empty result, without error, for an event
  without a cookie header, for a cookie header none of whose pairs is named \<open>session\<close>,
  and for one whose first pair named \<open>session\<close> has the empty value. When that pair has a
  value that cannot be decrypted under the session secret, it fails with
  \<open>SessionDecryptionError\<close>: when the AES decryption raises, when the plaintext has no
  \<open>;\<close> (as the empty plaintext that a text which is no ciphertext gives), and when the
  part of the plaintext before the \<open>;\<close> it is split at does not parse as JSON.
\<close>

theorem decryptSession_errors:
  "(headers event ''cookie'' = None \<longrightarrow> decryptSession rt event = Inr None)
   \<and> (headers event ''cookie'' = Some (cookie_header cookies) \<and> list_all plain_cookie cookies
        \<and> session_cookie cookies = None
        \<longrightarrow> decryptSession rt event = Inr None)
   \<and> (headers event ''cookie'' = Some (cookie_header cookies) \<and> list_all plain_cookie cookies
        \<and> session_cookie cookies = Some []
        \<longrightarrow> decryptSession rt event = Inr None)
   \<and> (headers event ''cookie'' = Some (cookie_header cookies) \<and> list_all plain_cookie cookies
        \<and> session_cookie cookies = Some v \<and> v \<noteq> []
        \<and> AES_decrypt rt v (SESSION_SECRET rt) = None
        \<longrightarrow> decryptSession rt event = Inl SessionDecryptionError)
   \<and> (headers event ''cookie'' = Some (cookie_header cookies) \<and> list_all plain_cookie cookies
        \<and> session_cookie cookies = Some v \<and> v \<noteq> []
        \<and> AES_decrypt rt v (SESSION_SECRET rt) = Some d \<and> CHR '';'' \<notin> set d
        \<longrightarrow> decryptSession rt event = Inl SessionDecryptionError)
   \<and> (headers event ''cookie'' = Some (cookie_header cookies) \<and> list_all plain_cookie cookies
        \<and> session_cookie cookies = Some v \<and> v \<noteq> []
        \<and> AES_decrypt rt v (SESSION_SECRET rt) = Some (j @ '';'' @ t)
        \<and> ((splitAt rt = AtFirst \<and> CHR '';'' \<notin> set j) \<or> (splitAt rt = AtLast \<and> CHR '';'' \<notin> set t))
        \<and> JSON_parse rt j = None
        \<longrightarrow> decryptSession rt event = Inl SessionDecryptionError)"
proof -
  have a: "decryptSession rt event = Inr None" if "headers event ''cookie'' = None"
    using that by (simp add: decryptSession_def getSession_def)
  have g: "getSession event = session_cookie cookies"
    if "headers event ''cookie'' = Some (cookie_header cookies)" "list_all plain_cookie cookies"
    using that by (rule getSession_cookie_header)
  have b: "decryptSession rt event = Inr None"
    if "headers event ''cookie'' = Some (cookie_header cookies)" "list_all plain_cookie cookies"
      "session_cookie cookies = None"
    using g [OF that(1,2)] that(3) by (simp add: decryptSession_def)
  have c: "decryptSession rt event = Inr None"
    if "headers event ''cookie'' = Some (cookie_header cookies)" "list_all plain_cookie cookies"
      "session_cookie cookies = Some []"
    using g [OF that(1,2)] that(3) by (simp add: decryptSession_def)
  have d: "decryptSession rt event = Inl SessionDecryptionError"
    if "headers event ''cookie'' = Some (cookie_header cookies)" "list_all plain_cookie cookies"
      "session_cookie cookies = Some v" "v \<noteq> []" "AES_decrypt rt v (SESSION_SECRET rt) = None"
    using g [OF that(1,2)] that(3,4,5) by (simp add: decryptSession_def)
  have e: "decryptSession rt event = Inl SessionDecryptionError"
    if "headers event ''cookie'' = Some (cookie_header cookies)" "list_all plain_cookie cookies"
      "session_cookie cookies = Some v" "v \<noteq> []"
      "AES_decrypt rt v (SESSION_SECRET rt) = Some d" "CHR '';'' \<notin> set d"
  proof -
    have "session_parts (splitAt rt) d = None" using that(6) by (simp add: session_parts_None)
    then show ?thesis
      using g [OF that(1,2)] that(3,4,5) by (simp add: decryptSession_def)
  qed
  have f: "decryptSession rt event = Inl SessionDecryptionError"
    if "headers event ''cookie'' = Some (cookie_header cookies)" "list_all plain_cookie cookies"
      "session_cookie cookies = Some v" "v \<noteq> []"
      "AES_decrypt rt v (SESSION_SECRET rt) = Some (j @ '';'' @ t)"
      "(splitAt rt = AtFirst \<and> CHR '';'' \<notin> set j) \<or> (splitAt rt = AtLast \<and> CHR '';'' \<notin> set t)"
      "JSON_parse rt j = None"
  proof -
    have "session_parts (splitAt rt) (j @ '';'' @ t) = Some (j, t)"
      using that(6) by (rule session_parts_split)
    then show ?thesis
      using g [OF that(1,2)] that(3,4,5,7) by (simp add: decryptSession_def)
  qed
  from a b c d e f show ?thesis by blast
qed

theorem decryptSession_errors_witness:
  \<open>decryptSession sample_runtime
      \<lparr>path = ''/auth'', queryStringParameters = Map.empty, body = None, headers = Map.empty\<rparr>
     = Inr None
   \<and> cookie_header [(False, ''foo'', ''bar'')] = ''foo=bar''
   \<and> decryptSession sample_runtime
        \<lparr>path = ''/auth'', queryStringParameters = Map.empty, body = None,
         headers = [''cookie'' \<mapsto> ''foo=bar'']\<rparr>
       = Inr None
   \<and> cookie_header [(False, ''session'', [])] = ''session=''
   \<and> decryptSession sample_runtime
        \<lparr>path = ''/auth'', queryStringParameters = Map.empty, body = None,
         headers = [''cookie'' \<mapsto> ''session='']\<rparr>
       = Inr None
   \<and> cookie_header [(False, ''session'', ''qwerty'')] = ''session=qwerty''
   \<and> AES_decrypt sample_runtime ''qwerty'' (SESSION_SECRET sample_runtime) = Some []
   \<and> decryptSession sample_runtime
        \<lparr>path = ''/auth'', queryStringParameters = Map.empty, body = None,
         headers = [''cookie'' \<mapsto> ''session=qwerty'']\<rparr>
       = Inl SessionDecryptionError
   \<and> cookie_header
        [(False, ''foo'', ''bar''),
         (True, ''session'', ''U2FsdGVkX18BAgMEBQYHCBfUbNbQZr0qBpnw2Of1mP8='')]
       = ''foo=bar; session=U2FsdGVkX18BAgMEBQYHCBfUbNbQZr0qBpnw2Of1mP8=''
   \<and> AES_decrypt sample_runtime ''U2FsdGVkX18BAgMEBQYHCBfUbNbQZr0qBpnw2Of1mP8=''
        (SESSION_SECRET sample_runtime) = Some (''{"a":"'' @ '';'' @ ''"};token'')
   \<and> splitAt sample_runtime = AtFirst
   \<and> JSON_parse sample_runtime ''{"a":"'' = None
   \<and> decryptSession sample_runtime
        \<lparr>path = ''/auth'', queryStringParameters = Map.empty, body = None,
         headers = [''cookie'' \<mapsto>
           ''foo=bar; session=U2FsdGVkX18BAgMEBQYHCBfUbNbQZr0qBpnw2Of1mP8='']\<rparr>
       = Inl SessionDecryptionError
   \<and> AES_decrypt (sample_runtime\<lparr>SESSION_SECRET := ''wrong-secret-7''\<rparr>)
        ''U2FsdGVkX1/zRHVlEQhffsOufy7VLRAR6R4gb818vxblQQJFZI6W/T8uzxNUbQMx''
        ''wrong-secret-7'' = None
   \<and> decryptSession (sample_runtime\<lparr>SESSION_SECRET := ''wrong-secret-7''\<rparr>)
        \<lparr>path = ''/auth'', queryStringParameters = Map.empty, body = None,
         headers = [''cookie'' \<mapsto>
           ''session=U2FsdGVkX1/zRHVlEQhffsOufy7VLRAR6R4gb818vxblQQJFZI6W/T8uzxNUbQMx'']\<rparr>
       = Inl SessionDecryptionError\<close>
proof -
  let ?e0 = "\<lparr>path = ''/auth'', queryStringParameters = Map.empty, body = None,
              headers = Map.empty\<rparr>"
  let ?e1 = "\<lparr>path = ''/auth'', queryStringParameters = Map.empty, body = None,
              headers = [''cookie'' \<mapsto> ''foo=bar'']\<rparr>"
  let ?e2 = "\<lparr>path = ''/auth'', queryStringParameters = Map.empty, body = None,
              headers = [''cookie'' \<mapsto> ''session='']\<rparr>"
  let ?e3 = "\<lparr>path = ''/auth'', queryStringParameters = Map.empty, body = None,
              headers = [''cookie'' \<mapsto> ''session=qwerty'']\<rparr>"
  let ?e4 = "\<lparr>path = ''/auth'', queryStringParameters = Map.empty, body = None,
              headers = [''cookie'' \<mapsto>
                ''foo=bar; session=U2FsdGVkX18BAgMEBQYHCBfUbNbQZr0qBpnw2Of1mP8='']\<rparr>"
  let ?e5 = "\<lparr>path = ''/auth'', queryStringParameters = Map.empty, body = None,
              headers = [''cookie'' \<mapsto>
                ''session=U2FsdGVkX1/zRHVlEQhffsOufy7VLRAR6R4gb818vxblQQJFZI6W/T8uzxNUbQMx'']\<rparr>"
  let ?c1 = "[(False, ''foo'', ''bar'')]"
  let ?c2 = "[(False, ''session'', [])]"
  let ?c3 = "[(False, ''session'', ''qwerty'')]"
  let ?c4 = "[(False, ''foo'', ''bar''),
              (True, ''session'', ''U2FsdGVkX18BAgMEBQYHCBfUbNbQZr0qBpnw2Of1mP8='')]"
  let ?c5 = "[(False, ''session'',
               ''U2FsdGVkX1/zRHVlEQhffsOufy7VLRAR6R4gb818vxblQQJFZI6W/T8uzxNUbQMx'')]"
  let ?wrong = "sample_runtime\<lparr>SESSION_SECRET := ''wrong-secret-7''\<rparr>"
  have h0: "headers ?e0 ''cookie'' = None" by simp
  have r0: "decryptSession sample_runtime ?e0 = Inr None"
    using decryptSession_errors [where event = ?e0 and rt = sample_runtime] h0 by blast
  have k1: "cookie_header ?c1 = ''foo=bar''" by (simp add: cookie_header_def render_cookie_def)
  have h1: "headers ?e1 ''cookie'' = Some (cookie_header ?c1)" by (simp add: k1)
  have p1: "list_all plain_cookie ?c1" by (simp add: plain_cookie_def)
  have s1: "session_cookie ?c1 = None" by (simp add: session_cookie_def)
  have r1: "decryptSession sample_runtime ?e1 = Inr None"
    using decryptSession_errors [where event = ?e1 and rt = sample_runtime and cookies = ?c1]
      h1 p1 s1 by blast
  have k2: "cookie_header ?c2 = ''session=''" by (simp add: cookie_header_def render_cookie_def)
  have h2: "headers ?e2 ''cookie'' = Some (cookie_header ?c2)" by (simp add: k2)
  have p2: "list_all plain_cookie ?c2" by (simp add: plain_cookie_def)
  have s2: "session_cookie ?c2 = Some []" by (simp add: session_cookie_def)
  have r2: "decryptSession sample_runtime ?e2 = Inr None"
    using decryptSession_errors [where event = ?e2 and rt = sample_runtime and cookies = ?c2]
      h2 p2 s2 by blast
  have k3: "cookie_header ?c3 = ''session=qwerty''"
    by (simp add: cookie_header_def render_cookie_def)
  have h3: "headers ?e3 ''cookie'' = Some (cookie_header ?c3)" by (simp add: k3)
  have p3: "list_all plain_cookie ?c3" by (simp add: plain_cookie_def)
  have s3: "session_cookie ?c3 = Some ''qwerty''" by (simp add: session_cookie_def)
  have n3: "''qwerty'' \<noteq> []" by simp
  have a3: "AES_decrypt sample_runtime ''qwerty'' (SESSION_SECRET sample_runtime) = Some []"
    by (simp add: sample_runtime_def sample_AES_decrypt_def aes_vectors_def)
  have d3: "CHR '';'' \<notin> set []" by simp
  have r3: "decryptSession sample_runtime ?e3 = Inl SessionDecryptionError"
    using decryptSession_errors [where event = ?e3 and rt = sample_runtime and cookies = ?c3
        and v = "''qwerty''" and d = "[]"]
      h3 p3 s3 n3 a3 d3 by blast
  have k4: "cookie_header ?c4 = ''foo=bar; session=U2FsdGVkX18BAgMEBQYHCBfUbNbQZr0qBpnw2Of1mP8=''"
    by (simp add: cookie_header_def render_cookie_def)
  have h4: "headers ?e4 ''cookie'' = Some (cookie_header ?c4)" by (simp add: k4)
  have p4: "list_all plain_cookie ?c4" by (simp add: plain_cookie_def)
  have s4: "session_cookie ?c4 = Some ''U2FsdGVkX18BAgMEBQYHCBfUbNbQZr0qBpnw2Of1mP8=''"
    by (simp add: session_cookie_def)
  have n4: "''U2FsdGVkX18BAgMEBQYHCBfUbNbQZr0qBpnw2Of1mP8='' \<noteq> []" by simp
  have a4: \<open>AES_decrypt sample_runtime ''U2FsdGVkX18BAgMEBQYHCBfUbNbQZr0qBpnw2Of1mP8=''
        (SESSION_SECRET sample_runtime) = Some (''{"a":"'' @ '';'' @ ''"};token'')\<close>
    by (simp add: sample_runtime_def sample_AES_decrypt_def aes_vectors_def)
  have f4: "splitAt sample_runtime = AtFirst" by (simp add: sample_runtime_def)
  have j4: \<open>CHR '';'' \<notin> set ''{"a":"''\<close> by simp
  have q4: \<open>JSON_parse sample_runtime ''{"a":"'' = None\<close>
    by (simp add: sample_runtime_def sample_parse_unterminated)
  have r4: "decryptSession sample_runtime ?e4 = Inl SessionDecryptionError"
    using decryptSession_errors [where event = ?e4 and rt = sample_runtime and cookies = ?c4
        and v = "''U2FsdGVkX18BAgMEBQYHCBfUbNbQZr0qBpnw2Of1mP8=''"
        and j = \<open>''{"a":"''\<close> and t = \<open>''"};token''\<close>]
      h4 p4 s4 n4 a4 f4 j4 q4 by blast
  have k5: "cookie_header ?c5 =
      ''session=U2FsdGVkX1/zRHVlEQhffsOufy7VLRAR6R4gb818vxblQQJFZI6W/T8uzxNUbQMx''"
    by (simp add: cookie_header_def render_cookie_def)
  have h5: "headers ?e5 ''cookie'' = Some (cookie_header ?c5)" by (simp add: k5)
  have p5: "list_all plain_cookie ?c5" by (simp add: plain_cookie_def)
  have s5: "session_cookie ?c5 =
      Some ''U2FsdGVkX1/zRHVlEQhffsOufy7VLRAR6R4gb818vxblQQJFZI6W/T8uzxNUbQMx''"
    by (simp add: session_cookie_def)
  have n5: "''U2FsdGVkX1/zRHVlEQhffsOufy7VLRAR6R4gb818vxblQQJFZI6W/T8uzxNUbQMx'' \<noteq> []" by simp
  have w5: "SESSION_SECRET ?wrong = ''wrong-secret-7''" by simp
  have a5: "AES_decrypt ?wrong
        ''U2FsdGVkX1/zRHVlEQhffsOufy7VLRAR6R4gb818vxblQQJFZI6W/T8uzxNUbQMx''
        ''wrong-secret-7'' = None"
    by (simp add: sample_runtime_def sample_AES_decrypt_def aes_vectors_def)
  have a5': "AES_decrypt ?wrong
        ''U2FsdGVkX1/zRHVlEQhffsOufy7VLRAR6R4gb818vxblQQJFZI6W/T8uzxNUbQMx''
        (SESSION_SECRET ?wrong) = None"
    unfolding w5 by (rule a5)
  have r5: "decryptSession ?wrong ?e5 = Inl SessionDecryptionError"
    using decryptSession_errors [where event = ?e5 and rt = ?wrong and cookies = ?c5
        and v = "''U2FsdGVkX1/zRHVlEQhffsOufy7VLRAR6R4gb818vxblQQJFZI6W/T8uzxNUbQMx''"]
      h5 p5 s5 n5 a5' by blast
  from r0 k1 r1 k2 r2 k3 a3 r3 k4 a4 f4 q4 r4 a5 r5 show ?thesis by blast
qed

text \<open>
  On the session cookie of the test suite, which decrypts under the session secret to
  \<open>{"foo":"bar"};abcd\<close>, the model returns the parsed object and the token.
\<close>

lemma decryptSession_test_vector:
  \<open>decryptSession sample_runtime
      \<lparr>path = ''/auth'', queryStringParameters = Map.empty, body = None,
       headers = [''cookie'' \<mapsto>
         ''session=U2FsdGVkX1/zRHVlEQhffsOufy7VLRAR6R4gb818vxblQQJFZI6W/T8uzxNUbQMx'']\<rparr>
     = Inr (Some ([(''foo'', JString ''bar'')], ''abcd''))\<close>
proof -
  have g: "getSession
      \<lparr>path = ''/auth'', queryStringParameters = Map.empty, body = None,
       headers = [''cookie'' \<mapsto>
         ''session=U2FsdGVkX1/zRHVlEQhffsOufy7VLRAR6R4gb818vxblQQJFZI6W/T8uzxNUbQMx'']\<rparr>
     = Some ''U2FsdGVkX1/zRHVlEQhffsOufy7VLRAR6R4gb818vxblQQJFZI6W/T8uzxNUbQMx''"
    by (simp add: getSession_def cookie_name_def cookie_value_def after_delimiter_def)
  have a: \<open>AES_decrypt sample_runtime
      ''U2FsdGVkX1/zRHVlEQhffsOufy7VLRAR6R4gb818vxblQQJFZI6W/T8uzxNUbQMx''
      (SESSION_SECRET sample_runtime) = Some (''{"foo":"bar"}'' @ CHR '';'' # ''abcd'')\<close>
    by (simp add: sample_runtime_def sample_AES_decrypt_def aes_vectors_def)
  have s: \<open>session_parts (splitAt sample_runtime) (''{"foo":"bar"}'' @ CHR '';'' # ''abcd'')
      = Some (''{"foo":"bar"}'', ''abcd'')\<close>
    by (simp add: sample_runtime_def session_parts_def)
  have q: \<open>JSON_parse sample_runtime ''{"foo":"bar"}'' = Some [(''foo'', JString ''bar'')]\<close>
    by (simp add: sample_runtime_def sample_parse_foo)
  from g a s q show ?thesis by (simp add: decryptSession_def)
qed

end
